theory Spec2Isabelle
  imports Main
begin

section \<open>Strings and JavaScript values\<close>

text \<open>
  Strings of \<^verbatim>\<open>src/watcher.js\<close> are modelled as \<^typ>\<open>string\<close>. A value that can be
  \<^verbatim>\<open>null\<close> or \<^verbatim>\<open>undefined\<close> is an \<^typ>\<open>'a option\<close>, with \<^term>\<open>None\<close> for both.
  \<^verbatim>\<open>toLowerCase\<close> folds the ASCII letters; other characters are left as they are.
\<close>

definition lower_char :: "char \<Rightarrow> char" where
  "lower_char c =
     (let n = (of_char c :: nat) in if 65 \<le> n \<and> n \<le> 90 then char_of (n + 32) else c)"

definition toLowerCase :: "string \<Rightarrow> string" where
  "toLowerCase s = map lower_char s"

fun startsWith :: "string \<Rightarrow> string \<Rightarrow> bool" where
  "startsWith s [] = True"
| "startsWith [] (p # ps) = False"
| "startsWith (c # cs) (p # ps) = (c = p \<and> startsWith cs ps)"

text \<open>\<^verbatim>\<open>s.includes(p)\<close>: \<open>p\<close> occurs in \<open>s\<close> as a contiguous substring.\<close>

fun includes_str :: "string \<Rightarrow> string \<Rightarrow> bool" where
  "includes_str [] p = (p = [])"
| "includes_str (c # cs) p = (startsWith (c # cs) p \<or> includes_str cs p)"

text \<open>\<^verbatim>\<open>s.split(',')\<close>: the pieces between commas; never the empty list.\<close>

fun split_comma :: "string \<Rightarrow> string list" where
  "split_comma [] = [[]]"
| "split_comma (c # cs) =
     (if c = CHR '','' then [] # split_comma cs
      else (case split_comma cs of [] \<Rightarrow> [[c]] | w # ws \<Rightarrow> (c # w) # ws))"

definition is_space :: "char \<Rightarrow> bool" where
  "is_space c = ((of_char c :: nat) = 32 \<or> (9 \<le> (of_char c :: nat) \<and> (of_char c :: nat) \<le> 13))"

definition trim :: "string \<Rightarrow> string" where
  "trim s = rev (dropWhile is_space (rev (dropWhile is_space s)))"

text \<open>\<^verbatim>\<open>a || d\<close> on a possibly missing string: the empty string is falsy too.\<close>

definition or_else :: "string option \<Rightarrow> string \<Rightarrow> string" where
  "or_else a d = (case a of None \<Rightarrow> d | Some s \<Rightarrow> if s = [] then d else s)"

definition or_opt :: "string option \<Rightarrow> string option \<Rightarrow> string option" where
  "or_opt a b = (case a of None \<Rightarrow> b | Some s \<Rightarrow> if s = [] then b else Some s)"

text \<open>\<^verbatim>\<open>a || b\<close> on possibly missing numbers: \<open>0\<close> is falsy.\<close>

definition or_num :: "nat option \<Rightarrow> nat option \<Rightarrow> nat option" where
  "or_num a b = (case a of None \<Rightarrow> b | Some n \<Rightarrow> if n = 0 then b else Some n)"

text \<open>Truthiness of a possibly missing string, and of a possibly missing boolean.\<close>

definition truthy :: "string option \<Rightarrow> bool" where
  "truthy a = (case a of None \<Rightarrow> False | Some s \<Rightarrow> s \<noteq> [])"

definition is_true :: "bool option \<Rightarrow> bool" where
  "is_true b = (b = Some True)"

text \<open>
  A template literal prints a platform id (a non-negative integer below \<open>2^53\<close>) in
  decimal, without leading zeros.
\<close>

definition digit_char :: "nat \<Rightarrow> char" where
  "digit_char d = char_of (48 + d)"

fun decimal :: "nat \<Rightarrow> string" where
  "decimal n = (if n < 10 then [digit_char n] else decimal (n div 10) @ [digit_char (n mod 10)])"

declare decimal.simps [simp del]

section \<open>Configuration\<close>

definition POLL_INTERVAL_MS :: nat where
  "POLL_INTERVAL_MS = 30000"

definition REVIEW_BOTS :: "string list" where
  "REVIEW_BOTS = [''cursor'', ''codex-connector'', ''codex'']"

definition DEFAULT_NON_BLOCKING_CI :: "string list" where
  "DEFAULT_NON_BLOCKING_CI =
     [''slack'', ''notification'', ''emoji'', ''add reaction'', ''coverage'', ''codecov'',
      ''deque_notify'', ''dequeue'']"

text \<open>
  \<^verbatim>\<open>getNonBlockingPatterns\<close>: the defaults, followed by the comma-separated patterns of the
  environment variable \<^verbatim>\<open>NON_BLOCKING_CI\<close> (the argument; \<^term>\<open>None\<close> when unset), each
  trimmed and lower-cased. An empty variable is falsy and adds nothing.
\<close>

definition getNonBlockingPatterns :: "string option \<Rightarrow> string list" where
  "getNonBlockingPatterns env =
     (case env of
        None \<Rightarrow> DEFAULT_NON_BLOCKING_CI
      | Some e \<Rightarrow>
          if e = [] then DEFAULT_NON_BLOCKING_CI
          else DEFAULT_NON_BLOCKING_CI @ map (\<lambda>p. toLowerCase (trim p)) (split_comma e))"

definition isNonBlockingCI :: "string option \<Rightarrow> string \<Rightarrow> bool" where
  "isNonBlockingCI env jobName =
     (if jobName = [] then False
      else list_ex (\<lambda>pattern. includes_str (toLowerCase jobName) pattern) (getNonBlockingPatterns env))"

definition isReviewBot :: "string option \<Rightarrow> bool" where
  "isReviewBot username =
     (case username of
        None \<Rightarrow> False
      | Some u \<Rightarrow> if u = [] then False else list_ex (\<lambda>bot. includes_str (toLowerCase u) bot) REVIEW_BOTS)"

section \<open>Issues\<close>

datatype issue_type = ReviewBot | CursorBot | CiFailure

datatype bot_type = BotCodex | BotCursorbot

text \<open>
  The issue objects pushed by the fetch functions. A field that an object literal does not
  set is \<^term>\<open>None\<close>; \<open>nonBlocking\<close> is set on CI failures only, \<open>resolved\<close> and
  \<open>outdated\<close> on the GraphQL review comments only.
\<close>

record issue =
  issue_id :: string
  issue_type :: issue_type
  botType :: "bot_type option"
  path :: "string option"
  line :: "nat option"
  body :: "string option"
  url :: "string option"
  author :: "string option"
  createdAt :: "string option"
  resolved :: "bool option"
  outdated :: "bool option"
  name :: "string option"
  source :: "string option"
  conclusion :: "string option"
  description :: "string option"
  ci_output :: "string option"
  nonBlocking :: "bool option"

definition bot_of :: "string \<Rightarrow> bot_type" where
  "bot_of login = (if includes_str (toLowerCase login) ''codex'' then BotCodex else BotCursorbot)"

section \<open>Review comments\<close>

text \<open>A comment node and a review thread of the GraphQL answer.\<close>

record gql_comment =
  databaseId :: nat
  gc_body :: string
  gc_url :: string
  gc_login :: "string option"
  gc_createdAt :: string

record review_thread =
  isResolved :: bool
  isOutdated :: bool
  thread_path :: "string option"
  thread_line :: "nat option"
  thread_comments :: "gql_comment list"

definition thread_issue :: "review_thread \<Rightarrow> gql_comment \<Rightarrow> issue" where
  "thread_issue thread comment =
     (let login = or_else (gc_login comment) ''bot'' in
      \<lparr> issue_id = ''review-'' @ decimal (databaseId comment),
        issue_type = ReviewBot,
        botType = Some (bot_of login),
        path = thread_path thread,
        line = thread_line thread,
        body = Some (gc_body comment),
        url = Some (gc_url comment),
        author = Some login,
        createdAt = Some (gc_createdAt comment),
        resolved = Some (isResolved thread),
        outdated = Some (isOutdated thread),
        name = None, source = None, conclusion = None, description = None, ci_output = None,
        nonBlocking = None \<rparr>)"

definition thread_issues :: "review_thread \<Rightarrow> issue list" where
  "thread_issues thread =
     map (thread_issue thread) (filter (\<lambda>c. isReviewBot (gc_login c)) (thread_comments thread))"

text \<open>A review comment of the REST answer.\<close>

record rest_comment =
  rc_id :: nat
  rc_login :: "string option"
  rc_position :: "nat option"
  rc_original_position :: "nat option"
  rc_path :: "string option"
  rc_line :: "nat option"
  rc_original_line :: "nat option"
  rc_body :: string
  rc_html_url :: string
  rc_created_at :: string

definition rest_outdated :: "rest_comment \<Rightarrow> bool" where
  "rest_outdated comment = (rc_position comment = None \<and> rc_original_position comment \<noteq> None)"

definition rest_issue :: "rest_comment \<Rightarrow> issue" where
  "rest_issue comment =
     (let login = or_else (rc_login comment) ''bot'' in
      \<lparr> issue_id = ''review-'' @ decimal (rc_id comment),
        issue_type = ReviewBot,
        botType = Some (bot_of login),
        path = rc_path comment,
        line = or_num (rc_line comment) (rc_original_line comment),
        body = Some (rc_body comment),
        url = Some (rc_html_url comment),
        author = Some login,
        createdAt = Some (rc_created_at comment),
        resolved = None, outdated = None,
        name = None, source = None, conclusion = None, description = None, ci_output = None,
        nonBlocking = None \<rparr>)"

text \<open>
  \<^verbatim>\<open>getCursorbotCommentsREST\<close>. The argument is the answer of
  \<^verbatim>\<open>pulls.listReviewComments\<close>, \<^term>\<open>None\<close> when the call throws.
\<close>

definition getCursorbotCommentsREST :: "rest_comment list option \<Rightarrow> issue list" where
  "getCursorbotCommentsREST rest =
     (case rest of
        None \<Rightarrow> []
      | Some reviewComments \<Rightarrow>
          map rest_issue
            (filter (\<lambda>c. \<not> rest_outdated c) (filter (\<lambda>c. isReviewBot (rc_login c)) reviewComments)))"

text \<open>
  \<^verbatim>\<open>getCursorbotComments\<close>. The first argument is the list of review threads of the GraphQL
  answer, \<^term>\<open>None\<close> when the query throws; the function then falls back to the REST
  path, whose answer is the second argument.
\<close>

definition getCursorbotComments ::
  "review_thread list option \<Rightarrow> rest_comment list option \<Rightarrow> issue list" where
  "getCursorbotComments gql rest =
     (case gql of
        None \<Rightarrow> getCursorbotCommentsREST rest
      | Some threads \<Rightarrow>
          concat (map thread_issues (filter (\<lambda>t. \<not> (isResolved t \<or> isOutdated t)) threads)))"

section \<open>General comments\<close>

record issue_comment =
  ic_id :: nat
  ic_body :: string
  ic_html_url :: string
  ic_login :: "string option"

definition comment_issue :: "issue_comment \<Rightarrow> issue" where
  "comment_issue comment =
     \<lparr> issue_id = ''issue-'' @ decimal (ic_id comment),
       issue_type = CursorBot,
       botType = None, path = None, line = None,
       body = Some (ic_body comment),
       url = Some (ic_html_url comment),
       author = ic_login comment,
       createdAt = None, resolved = None, outdated = None,
       name = Some ''PR Comment'',
       source = None, conclusion = None, description = None, ci_output = None,
       nonBlocking = None \<rparr>"

definition is_cursor_comment :: "issue_comment \<Rightarrow> bool" where
  "is_cursor_comment c =
     (case ic_login c of None \<Rightarrow> False | Some l \<Rightarrow> includes_str (toLowerCase l) ''cursor'')"

text \<open>
  \<^verbatim>\<open>getPRIssueComments\<close>. The argument is the answer of \<^verbatim>\<open>issues.listComments\<close>,
  \<^term>\<open>None\<close> when the call throws.
\<close>

definition getPRIssueComments :: "issue_comment list option \<Rightarrow> issue list" where
  "getPRIssueComments fetched =
     (case fetched of
        None \<Rightarrow> []
      | Some issueComments \<Rightarrow> map comment_issue (filter is_cursor_comment issueComments))"

section \<open>CI failures\<close>

record check_run =
  run_id :: nat
  run_name :: string
  run_status :: string
  run_conclusion :: "string option"
  run_app_name :: "string option"
  run_html_url :: "string option"
  run_details_url :: "string option"
  run_output_summary :: "string option"
  run_output_title :: "string option"

record commit_status =
  status_id :: nat
  status_context :: string
  status_state :: string
  status_description :: "string option"
  target_url :: "string option"

text \<open>
  What the three calls of \<^verbatim>\<open>getCIFailures\<close> and of \<^verbatim>\<open>checkCIStatus\<close> answer, in the order
  they are awaited: \<^verbatim>\<open>pulls.get\<close> throws; it answers and \<^verbatim>\<open>checks.listForRef\<close> throws;
  both answer (with the check runs) and \<^verbatim>\<open>repos.getCombinedStatusForRef\<close> throws; all
  three answer.
\<close>

datatype ci_fetch =
  PrError
| ChecksError
| StatusesError "check_run list"
| CiData "check_run list" "commit_status list"

definition run_failed :: "check_run \<Rightarrow> bool" where
  "run_failed run =
     (run_conclusion run = Some ''failure'' \<or> run_conclusion run = Some ''cancelled''
      \<or> run_conclusion run = Some ''timed_out'')"

definition run_issue :: "string option \<Rightarrow> check_run \<Rightarrow> issue" where
  "run_issue env run =
     \<lparr> issue_id = ''ci-'' @ decimal (run_id run),
       issue_type = CiFailure,
       botType = None, path = None, line = None, body = None,
       url = or_opt (run_html_url run) (run_details_url run),
       author = None, createdAt = None, resolved = None, outdated = None,
       name = Some (run_name run),
       source = Some (or_else (run_app_name run) ''CI''),
       conclusion = run_conclusion run,
       description = None,
       ci_output = or_opt (run_output_summary run) (run_output_title run),
       nonBlocking = Some (isNonBlockingCI env (run_name run)) \<rparr>"

definition status_failed :: "commit_status \<Rightarrow> bool" where
  "status_failed status = (status_state status = ''failure'' \<or> status_state status = ''error'')"

definition status_issue :: "string option \<Rightarrow> commit_status \<Rightarrow> issue" where
  "status_issue env status =
     \<lparr> issue_id = ''status-'' @ decimal (status_id status),
       issue_type = CiFailure,
       botType = None, path = None, line = None, body = None,
       url = target_url status,
       author = None, createdAt = None, resolved = None, outdated = None,
       name = Some (status_context status),
       source = Some (or_else (Some (takeWhile (\<lambda>c. c \<noteq> CHR ''/'') (status_context status))) ''CI''),
       conclusion = Some (status_state status),
       description = status_description status,
       ci_output = None,
       nonBlocking = Some (isNonBlockingCI env (status_context status)) \<rparr>"

text \<open>
  \<^verbatim>\<open>isDuplicate\<close>: some issue pushed so far has the status's target URL as its \<open>url\<close>, or
  a name equal to the status's context once both are lower-cased.
\<close>

definition isDuplicate :: "issue list \<Rightarrow> commit_status \<Rightarrow> bool" where
  "isDuplicate issues status =
     list_ex (\<lambda>i. url i = target_url status
                 \<or> map_option toLowerCase (name i) = Some (toLowerCase (status_context status)))
       issues"

text \<open>The second loop of \<^verbatim>\<open>getCIFailures\<close>, pushing onto the issues found so far.\<close>

fun push_statuses :: "string option \<Rightarrow> commit_status list \<Rightarrow> issue list \<Rightarrow> issue list" where
  "push_statuses env [] issues = issues"
| "push_statuses env (status # rest) issues =
     (if status_failed status then
        (if \<not> isDuplicate issues status
         then push_statuses env rest (issues @ [status_issue env status])
         else push_statuses env rest issues)
      else push_statuses env rest issues)"

definition getCIFailures :: "string option \<Rightarrow> ci_fetch \<Rightarrow> issue list" where
  "getCIFailures env fetched =
     (case fetched of
        PrError \<Rightarrow> []
      | ChecksError \<Rightarrow> []
      | StatusesError check_runs \<Rightarrow> map (run_issue env) (filter run_failed check_runs)
      | CiData check_runs statuses \<Rightarrow>
          push_statuses env statuses (map (run_issue env) (filter run_failed check_runs)))"

section \<open>CI aggregate\<close>

record ci_status =
  allGreen :: bool
  pending :: nat
  passed :: nat
  failed :: nat
  nonBlockingFailed :: nat
  total :: nat

definition ci_status_init :: ci_status where
  "ci_status_init =
     \<lparr> allGreen = False, pending = 0, passed = 0, failed = 0, nonBlockingFailed = 0, total = 0 \<rparr>"

definition count_run :: "string option \<Rightarrow> check_run \<Rightarrow> ci_status \<Rightarrow> ci_status" where
  "count_run env run result =
     (let result = result\<lparr>total := total result + 1\<rparr> in
      if run_status run \<noteq> ''completed'' then result\<lparr>pending := pending result + 1\<rparr>
      else if run_conclusion run = Some ''success'' \<or> run_conclusion run = Some ''skipped''
              \<or> run_conclusion run = Some ''neutral''
      then result\<lparr>passed := passed result + 1\<rparr>
      else if isNonBlockingCI env (run_name run)
      then result\<lparr>nonBlockingFailed := nonBlockingFailed result + 1\<rparr>
      else result\<lparr>failed := failed result + 1\<rparr>)"

definition count_status :: "string option \<Rightarrow> commit_status \<Rightarrow> ci_status \<Rightarrow> ci_status" where
  "count_status env status result =
     (let result = result\<lparr>total := total result + 1\<rparr> in
      if status_state status = ''pending'' then result\<lparr>pending := pending result + 1\<rparr>
      else if status_state status = ''success'' then result\<lparr>passed := passed result + 1\<rparr>
      else if isNonBlockingCI env (status_context status)
      then result\<lparr>nonBlockingFailed := nonBlockingFailed result + 1\<rparr>
      else result\<lparr>failed := failed result + 1\<rparr>)"

definition set_allGreen :: "ci_status \<Rightarrow> ci_status" where
  "set_allGreen result =
     result\<lparr>allGreen := (total result > 0 \<and> pending result = 0 \<and> failed result = 0)\<rparr>"

text \<open>
  \<^verbatim>\<open>checkCIStatus\<close>. The counters are updated in place, so a call that throws leaves what
  was counted before it; \<open>allGreen\<close> is assigned after the last loop only.
\<close>

definition checkCIStatus :: "string option \<Rightarrow> ci_fetch \<Rightarrow> ci_status" where
  "checkCIStatus env fetched =
     (case fetched of
        PrError \<Rightarrow> ci_status_init
      | ChecksError \<Rightarrow> ci_status_init
      | StatusesError check_runs \<Rightarrow> fold (count_run env) check_runs ci_status_init
      | CiData check_runs statuses \<Rightarrow>
          set_allGreen
            (fold (count_status env) statuses (fold (count_run env) check_runs ci_status_init)))"

section \<open>Merge queue\<close>

record queue_entry =
  entry_position :: "nat option"
  entry_state :: string

text \<open>
  What the calls of \<^verbatim>\<open>checkMergeQueueStatus\<close> answer: \<^verbatim>\<open>pulls.get\<close> throws; the pull
  request is merged; the GraphQL query throws; the query answers with the merge-queue entry,
  \<^term>\<open>None\<close> when the pull request is not in the queue.
\<close>

datatype mq_fetch =
  MqPrError
| MqMerged
| MqQueryError
| MqEntry "queue_entry option"

text \<open>
  The fields of the result that \<^verbatim>\<open>pollForIssues\<close> decides on. \<open>displayState\<close> and
  \<open>estimatedMergeTime\<close> are only printed (the former depends on the clock) and are left out.
\<close>

record mq_status =
  inQueue :: bool
  position :: "nat option"
  mq_state :: "string option"
  merged :: bool
  aheadCount :: "nat option"

definition mq_status_init :: mq_status where
  "mq_status_init =
     \<lparr> inQueue = False, position = None, mq_state = None, merged = False, aheadCount = None \<rparr>"

definition checkMergeQueueStatus :: "mq_fetch \<Rightarrow> mq_status" where
  "checkMergeQueueStatus fetched =
     (case fetched of
        MqPrError \<Rightarrow> mq_status_init
      | MqMerged \<Rightarrow> mq_status_init\<lparr>merged := True, mq_state := Some ''MERGED''\<rparr>
      | MqQueryError \<Rightarrow> mq_status_init
      | MqEntry None \<Rightarrow> mq_status_init
      | MqEntry (Some entry) \<Rightarrow>
          mq_status_init\<lparr>inQueue := True, position := entry_position entry,
            mq_state := Some (entry_state entry),
            aheadCount := Some (case entry_position entry of None \<Rightarrow> 0 | Some p \<Rightarrow> p)\<rparr>)"

section \<open>The poll\<close>

text \<open>The module-level variables that \<^verbatim>\<open>pollForIssues\<close> reads and assigns.\<close>

record watcher_state =
  seenIssueIds :: "string set"
  previouslyHadBlockingIssues :: bool
  notifiedReadyToMerge :: bool
  lastMergeQueueState :: "string option"

definition initial_state :: watcher_state where
  "initial_state =
     \<lparr> seenIssueIds = {}, previouslyHadBlockingIssues = False, notifiedReadyToMerge = False,
       lastMergeQueueState = None \<rparr>"

text \<open>What the platform answers to the calls of one poll, in the order of the calls.\<close>

record poll_input =
  review_threads :: "review_thread list option"
  review_rest :: "rest_comment list option"
  issue_comments :: "issue_comment list option"
  ci_failures :: ci_fetch
  merge_queue :: mq_fetch
  ci_checks :: ci_fetch

text \<open>
  The notifications a poll sends: \<^verbatim>\<open>sendNotification(issues)\<close>,
  \<^verbatim>\<open>sendMergeQueueNotification(state, message)\<close> and \<^verbatim>\<open>sendReadyToMergeNotification()\<close>.
\<close>

datatype event =
  NewIssuesNotification "issue list"
| MergeQueueNotification string string
| ReadyToMergeNotification

definition allIssues_of :: "string option \<Rightarrow> poll_input \<Rightarrow> issue list" where
  "allIssues_of env inp =
     getCursorbotComments (review_threads inp) (review_rest inp)
     @ getPRIssueComments (issue_comments inp)
     @ getCIFailures env (ci_failures inp)"

definition newIssues_of :: "watcher_state \<Rightarrow> issue list \<Rightarrow> issue list" where
  "newIssues_of st allIssues = filter (\<lambda>i. issue_id i \<notin> seenIssueIds st) allIssues"

definition blocking_of :: "issue list \<Rightarrow> issue list" where
  "blocking_of issues = filter (\<lambda>i. \<not> is_true (nonBlocking i)) issues"

definition currentQueueState_of :: "mq_status \<Rightarrow> string option" where
  "currentQueueState_of mergeQueueStatus =
     (if merged mergeQueueStatus then Some ''MERGED''
      else if inQueue mergeQueueStatus then mq_state mergeQueueStatus else None)"

definition position_text :: "nat option \<Rightarrow> string" where
  "position_text p =
     (case p of None \<Rightarrow> [] | Some n \<Rightarrow> if n = 0 then [] else '' Position: #'' @ decimal n)"

text \<open>The merge-queue notifications of a poll, from the state of the last poll.\<close>

definition queue_events :: "string option \<Rightarrow> mq_status \<Rightarrow> event list" where
  "queue_events lastState mergeQueueStatus =
     (let currentQueueState = currentQueueState_of mergeQueueStatus in
      if lastState \<noteq> currentQueueState \<and> lastState \<noteq> None then
        (if currentQueueState = Some ''MERGED''
         then [MergeQueueNotification ''MERGED'' ''Your PR has been merged!'']
         else if truthy lastState \<and> \<not> truthy currentQueueState
         then [MergeQueueNotification ''REMOVED'' ''Check the PR - may need to re-queue'']
         else if \<not> truthy lastState \<and> truthy currentQueueState
         then [MergeQueueNotification ''QUEUED''
                 (''Added to merge queue'' @ position_text (position mergeQueueStatus))]
         else [])
      else [])"

text \<open>
  \<^verbatim>\<open>pollForIssues\<close>: the state after the poll and the notifications sent, in order.
  Printing to the terminal is left out.
\<close>

definition pollForIssues ::
  "string option \<Rightarrow> watcher_state \<Rightarrow> poll_input \<Rightarrow> watcher_state \<times> event list" where
  "pollForIssues env st inp =
     (let allIssues = allIssues_of env inp;
          newIssues = newIssues_of st allIssues;
          mergeQueueStatus = checkMergeQueueStatus (merge_queue inp);
          newBlockingIssues = blocking_of newIssues;
          events1 = (if newBlockingIssues \<noteq> [] then [NewIssuesNotification newBlockingIssues] else []);
          notified1 = (if newBlockingIssues \<noteq> [] then False else notifiedReadyToMerge st);
          seen = seenIssueIds st \<union> set (map issue_id allIssues);
          hasBlockingIssues = (blocking_of allIssues \<noteq> []);
          ciStatus = checkCIStatus env (ci_checks inp);
          events2 = queue_events (lastMergeQueueState st) mergeQueueStatus;
          ready = (\<not> hasBlockingIssues \<and> allGreen ciStatus \<and> \<not> notified1);
          events3 = (if ready \<and> previouslyHadBlockingIssues st then [ReadyToMergeNotification] else []);
          notified2 = (if ready then True else notified1)
      in (\<lparr> seenIssueIds = seen,
            previouslyHadBlockingIssues = hasBlockingIssues,
            notifiedReadyToMerge = notified2,
            lastMergeQueueState = currentQueueState_of mergeQueueStatus \<rparr>,
          events1 @ events2 @ events3))"

text \<open>A run of polls: the notifications of each poll, and the state after the last one.\<close>

fun polls_events :: "string option \<Rightarrow> watcher_state \<Rightarrow> poll_input list \<Rightarrow> event list list" where
  "polls_events env st [] = []"
| "polls_events env st (inp # inps) =
     snd (pollForIssues env st inp) # polls_events env (fst (pollForIssues env st inp)) inps"

fun polls_state :: "string option \<Rightarrow> watcher_state \<Rightarrow> poll_input list \<Rightarrow> watcher_state" where
  "polls_state env st [] = st"
| "polls_state env st (inp # inps) = polls_state env (fst (pollForIssues env st inp)) inps"

text \<open>Some call of the CI fetch threw.\<close>

definition fetch_failed :: "ci_fetch \<Rightarrow> bool" where
  "fetch_failed f = (case f of CiData check_runs statuses \<Rightarrow> False | _ \<Rightarrow> True)"

section \<open>Sample platform answers\<close>

definition passing_run :: check_run where
  "passing_run =
     \<lparr> run_id = 7, run_name = ''build'', run_status = ''completed'',
       run_conclusion = Some ''success'', run_app_name = Some ''GitHub Actions'',
       run_html_url = Some ''https://ci.example/build/7'', run_details_url = None,
       run_output_summary = None, run_output_title = None \<rparr>"

definition lint_run :: check_run where
  "lint_run =
     \<lparr> run_id = 1, run_name = ''lint'', run_status = ''completed'',
       run_conclusion = Some ''failure'', run_app_name = Some ''GitHub Actions'',
       run_html_url = Some ''https://ci.example/lint'', run_details_url = None,
       run_output_summary = None, run_output_title = None \<rparr>"

definition pending_run :: check_run where
  "pending_run =
     \<lparr> run_id = 9, run_name = ''build'', run_status = ''in_progress'',
       run_conclusion = None, run_app_name = Some ''GitHub Actions'',
       run_html_url = Some ''https://ci.example/build/9'', run_details_url = None,
       run_output_summary = None, run_output_title = None \<rparr>"

definition lint_status :: commit_status where
  "lint_status =
     \<lparr> status_id = 2, status_context = ''lint'', status_state = ''failure'',
       status_description = None, target_url = Some ''https://ci.example/lint'' \<rparr>"

definition build_status :: commit_status where
  "build_status =
     \<lparr> status_id = 3, status_context = ''build'', status_state = ''failure'',
       status_description = None, target_url = Some ''https://ci.example/pipeline/9'' \<rparr>"

definition deploy_status :: commit_status where
  "deploy_status =
     \<lparr> status_id = 4, status_context = ''deploy'', status_state = ''error'',
       status_description = None, target_url = Some ''https://ci.example/pipeline/9'' \<rparr>"

definition lint_comment :: gql_comment where
  "lint_comment =
     \<lparr> databaseId = 11, gc_body = ''Possible null dereference'',
       gc_url = ''https://github.example/pr/5#discussion_r11'',
       gc_login = Some ''cursor[bot]'', gc_createdAt = ''2024-01-01T00:00:00Z'' \<rparr>"

definition second_comment :: gql_comment where
  "second_comment =
     \<lparr> databaseId = 12, gc_body = ''Unused variable'',
       gc_url = ''https://github.example/pr/5#discussion_r12'',
       gc_login = Some ''cursor[bot]'', gc_createdAt = ''2024-01-02T00:00:00Z'' \<rparr>"

definition open_thread :: review_thread where
  "open_thread =
     \<lparr> isResolved = False, isOutdated = False, thread_path = Some ''src/a.js'',
       thread_line = Some 10, thread_comments = [lint_comment] \<rparr>"

definition resolved_thread :: review_thread where
  "resolved_thread = open_thread\<lparr>isResolved := True\<rparr>"

definition lint_rest_comment :: rest_comment where
  "lint_rest_comment =
     \<lparr> rc_id = 11, rc_login = Some ''cursor[bot]'', rc_position = Some 4,
       rc_original_position = Some 4, rc_path = Some ''src/a.js'', rc_line = Some 10,
       rc_original_line = Some 10, rc_body = ''Possible null dereference'',
       rc_html_url = ''https://github.example/pr/5#discussion_r11'',
       rc_created_at = ''2024-01-01T00:00:00Z'' \<rparr>"

text \<open>A poll in which every call answers and nothing is reported.\<close>

definition quiet_poll :: poll_input where
  "quiet_poll =
     \<lparr> review_threads = Some [], review_rest = Some [], issue_comments = Some [],
       ci_failures = CiData [] [], merge_queue = MqEntry None, ci_checks = CiData [] [] \<rparr>"

definition first_poll :: poll_input where
  "first_poll = quiet_poll\<lparr>review_threads := Some [open_thread]\<rparr>"

definition second_poll :: poll_input where
  "second_poll =
     quiet_poll\<lparr>review_threads := Some [open_thread\<lparr>thread_comments := [lint_comment, second_comment]\<rparr>]\<rparr>"

text \<open>A poll with no comments, both CI functions seeing the same check runs.\<close>

definition ci_poll :: "check_run list \<Rightarrow> poll_input" where
  "ci_poll runs = quiet_poll\<lparr>ci_failures := CiData runs [], ci_checks := CiData runs []\<rparr>"

definition blocked_poll :: poll_input where
  "blocked_poll = (ci_poll [lint_run])\<lparr>review_threads := Some [open_thread]\<rparr>"

definition queue_poll :: "nat \<Rightarrow> string \<Rightarrow> poll_input" where
  "queue_poll p s =
     quiet_poll\<lparr>merge_queue := MqEntry (Some \<lparr>entry_position = Some p, entry_state = s\<rparr>)\<rparr>"

definition merged_poll :: poll_input where
  "merged_poll = quiet_poll\<lparr>merge_queue := MqMerged\<rparr>"

definition degraded_poll :: poll_input where
  "degraded_poll = first_poll\<lparr>issue_comments := None, ci_checks := StatusesError [passing_run]\<rparr>"

section \<open>Facts about the poll\<close>

lemma poll_seen:
  "seenIssueIds (fst (pollForIssues env st inp)) = seenIssueIds st \<union> issue_id ` set (allIssues_of env inp)"
  by (simp add: pollForIssues_def Let_def)

lemma poll_events:
  "snd (pollForIssues env st inp) =
     (if blocking_of (newIssues_of st (allIssues_of env inp)) \<noteq> []
      then [NewIssuesNotification (blocking_of (newIssues_of st (allIssues_of env inp)))] else [])
     @ queue_events (lastMergeQueueState st) (checkMergeQueueStatus (merge_queue inp))
     @ (if blocking_of (allIssues_of env inp) = [] \<and> allGreen (checkCIStatus env (ci_checks inp))
           \<and> \<not> notifiedReadyToMerge st \<and> previouslyHadBlockingIssues st
        then [ReadyToMergeNotification] else [])"
  by (auto simp: pollForIssues_def Let_def blocking_of_def newIssues_of_def filter_empty_conv)

lemma poll_notified:
  "notifiedReadyToMerge (fst (pollForIssues env st inp)) =
     (if blocking_of (newIssues_of st (allIssues_of env inp)) \<noteq> [] then False
      else if blocking_of (allIssues_of env inp) = [] \<and> allGreen (checkCIStatus env (ci_checks inp))
      then True else notifiedReadyToMerge st)"
  by (auto simp: pollForIssues_def Let_def blocking_of_def newIssues_of_def filter_empty_conv)

lemma poll_previously:
  "previouslyHadBlockingIssues (fst (pollForIssues env st inp)) = (blocking_of (allIssues_of env inp) \<noteq> [])"
  by (simp add: pollForIssues_def Let_def)

lemma queue_events_not_ready: "ReadyToMergeNotification \<notin> set (queue_events l m)"
  by (simp add: queue_events_def Let_def)

lemma queue_events_not_new: "NewIssuesNotification issues \<notin> set (queue_events l m)"
  by (simp add: queue_events_def Let_def)

lemma count_ready_queue: "count_list (queue_events l m) ReadyToMergeNotification = 0"
  by (simp add: queue_events_def Let_def)

lemma blocking_new_subset: "blocking_of all = [] \<Longrightarrow> blocking_of (newIssues_of st all) = []"
  by (auto simp: blocking_of_def newIssues_of_def filter_empty_conv)

lemma first_poll_new: "newIssues_of initial_state all = all"
  by (simp add: newIssues_of_def initial_state_def)

lemma ready_iff:
  "ReadyToMergeNotification \<in> set (snd (pollForIssues env st inp)) \<longleftrightarrow>
     blocking_of (allIssues_of env inp) = [] \<and> allGreen (checkCIStatus env (ci_checks inp))
     \<and> \<not> notifiedReadyToMerge st \<and> previouslyHadBlockingIssues st"
  by (simp add: poll_events queue_events_not_ready)

lemma count_ready_poll:
  "count_list (snd (pollForIssues env st inp)) ReadyToMergeNotification =
     (if blocking_of (allIssues_of env inp) = [] \<and> allGreen (checkCIStatus env (ci_checks inp))
         \<and> \<not> notifiedReadyToMerge st \<and> previouslyHadBlockingIssues st then 1 else 0)"
  by (simp add: poll_events count_ready_queue)

section \<open>New blocking issues\<close>

text \<open>
  The first poll of a run starts from \<^term>\<open>initial_state\<close>. With one open review thread
  holding one bot comment, it sends the notification for that comment: the poll has no test
  for being the first.
\<close>

theorem first_poll_notifies_counterexample:
  "snd (pollForIssues None initial_state first_poll)
     = [NewIssuesNotification [thread_issue open_thread lint_comment]]"
  by code_simp

text \<open>
  Claim C1, as amended. For every poll, the first one included, whose newly seen issues
  contain at least one blocking issue: the poll sends one new-issues notification, before any
  merge-queue notification; it carries exactly the issues of the poll whose id was not seen
  and that are not flagged non-blocking; and \<open>notifiedReadyToMerge\<close> is false after the poll.
\<close>

theorem new_blocking_issues_notify:
  "blocking_of (newIssues_of st (allIssues_of env inp)) \<noteq> [] \<Longrightarrow>
     snd (pollForIssues env st inp) =
       NewIssuesNotification (blocking_of (newIssues_of st (allIssues_of env inp)))
       # queue_events (lastMergeQueueState st) (checkMergeQueueStatus (merge_queue inp))
     \<and> blocking_of (newIssues_of st (allIssues_of env inp)) =
         filter (\<lambda>i. issue_id i \<notin> seenIssueIds st \<and> nonBlocking i \<noteq> Some True) (allIssues_of env inp)
     \<and> (\<forall>issues. NewIssuesNotification issues \<notin>
           set (queue_events (lastMergeQueueState st) (checkMergeQueueStatus (merge_queue inp))))
     \<and> \<not> notifiedReadyToMerge (fst (pollForIssues env st inp))"
proof -
  assume new: "blocking_of (newIssues_of st (allIssues_of env inp)) \<noteq> []"
  then have all: "blocking_of (allIssues_of env inp) \<noteq> []"
    using blocking_new_subset by blast
  have "blocking_of (newIssues_of st (allIssues_of env inp)) =
         filter (\<lambda>i. issue_id i \<notin> seenIssueIds st \<and> nonBlocking i \<noteq> Some True) (allIssues_of env inp)"
    by (simp add: blocking_of_def newIssues_of_def is_true_def conj_commute)
  with new all show ?thesis
    by (simp add: poll_events poll_notified queue_events_not_new)
qed

theorem new_blocking_issues_notify_witness:
  "blocking_of (newIssues_of (fst (pollForIssues None initial_state first_poll)) (allIssues_of None second_poll))
     = [thread_issue open_thread second_comment]
   \<and> snd (pollForIssues None (fst (pollForIssues None initial_state first_poll)) second_poll)
     = [NewIssuesNotification [thread_issue open_thread second_comment]]
   \<and> \<not> notifiedReadyToMerge (fst (pollForIssues None (fst (pollForIssues None initial_state first_poll)) second_poll))"
proof -
  have new: "blocking_of (newIssues_of (fst (pollForIssues None initial_state first_poll)) (allIssues_of None second_poll))
     = [thread_issue open_thread second_comment]"
    by code_simp
  have q: "queue_events (lastMergeQueueState (fst (pollForIssues None initial_state first_poll)))
             (checkMergeQueueStatus (merge_queue second_poll)) = []"
    by code_simp
  from new have "blocking_of (newIssues_of (fst (pollForIssues None initial_state first_poll))
                   (allIssues_of None second_poll)) \<noteq> []"
    by simp
  from new_blocking_issues_notify [OF this] new q show ?thesis
    by simp
qed

section \<open>Merge-queue notifications\<close>

text \<open>
  Claim C2. The poll sends no merge-queue notification at all when the state of the last
  poll is \<^term>\<open>None\<close>, which is what it is after a poll that found the pull request
  outside the queue: a poll that then finds it in the queue (awaiting checks, position 2) sends
  nothing. Over the four polls awaiting checks (position 2), awaiting checks (position 0),
  mergeable (position 0), merged, the only notification is the one for the merge.
\<close>

theorem added_to_queue_never_sent:
  "queue_events None mergeQueueStatus = []
   \<and> lastMergeQueueState (fst (pollForIssues None initial_state quiet_poll)) = None
   \<and> polls_events None initial_state [quiet_poll, queue_poll 2 ''AWAITING_CHECKS''] = [[], []]
   \<and> polls_events None initial_state
       [queue_poll 2 ''AWAITING_CHECKS'', queue_poll 0 ''AWAITING_CHECKS'',
        queue_poll 0 ''MERGEABLE'', merged_poll]
     = [[], [], [], [MergeQueueNotification ''MERGED'' ''Your PR has been merged!'']]"
proof (intro conjI)
  show "queue_events None mergeQueueStatus = []"
    by (simp add: queue_events_def Let_def)
  show "lastMergeQueueState (fst (pollForIssues None initial_state quiet_poll)) = None"
    by code_simp
  show "polls_events None initial_state [quiet_poll, queue_poll 2 ''AWAITING_CHECKS''] = [[], []]"
    by code_simp
  show "polls_events None initial_state
       [queue_poll 2 ''AWAITING_CHECKS'', queue_poll 0 ''AWAITING_CHECKS'',
        queue_poll 0 ''MERGEABLE'', merged_poll]
     = [[], [], [], [MergeQueueNotification ''MERGED'' ''Your PR has been merged!'']]"
    by code_simp
qed

section \<open>Ready to merge\<close>

lemma ready_once:
  assumes b1: "blocking_of (allIssues_of env i1) \<noteq> []"
    and b2: "blocking_of (allIssues_of env i2) = []" and g2: "allGreen (checkCIStatus env (ci_checks i2))"
    and b3: "blocking_of (allIssues_of env i3) = []" and g3: "allGreen (checkCIStatus env (ci_checks i3))"
  shows "map (\<lambda>evs. count_list evs ReadyToMergeNotification) (polls_events env initial_state [i1, i2, i3])
           = [0, 1, 0]"
proof -
  define s1 where "s1 = fst (pollForIssues env initial_state i1)"
  define s2 where "s2 = fst (pollForIssues env s1 i2)"
  have n1: "\<not> notifiedReadyToMerge s1" and p1: "previouslyHadBlockingIssues s1"
    using b1 by (simp_all add: s1_def poll_notified poll_previously first_poll_new)
  have n2: "notifiedReadyToMerge s2"
    using b2 g2 by (simp add: s2_def poll_notified blocking_new_subset)
  have c1: "count_list (snd (pollForIssues env initial_state i1)) ReadyToMergeNotification = 0"
    using b1 by (simp add: count_ready_poll)
  have c2: "count_list (snd (pollForIssues env s1 i2)) ReadyToMergeNotification = 1"
    using b2 g2 n1 p1 by (simp add: count_ready_poll)
  have c3: "count_list (snd (pollForIssues env s2 i3)) ReadyToMergeNotification = 0"
    using n2 by (simp add: count_ready_poll)
  from c1 c2 c3 show ?thesis
    by (simp add: s1_def s2_def)
qed

text \<open>
  Claim C3. A run from \<^term>\<open>initial_state\<close>: the first poll sees a blocking review
  comment and a failing check run, the second sees no issue and a check run in progress, the
  third and the fourth see no issue and CI all green. When the third poll starts, an earlier
  poll had a blocking issue and \<open>notifiedReadyToMerge\<close> is false, but the second poll has
  cleared \<open>previouslyHadBlockingIssues\<close>: the third poll sets \<open>notifiedReadyToMerge\<close>
  without sending, and no poll of the run sends the ready notification.
\<close>

theorem ready_missed_after_pending_poll:
  "blocking_of (allIssues_of None blocked_poll) \<noteq> []
   \<and> blocking_of (allIssues_of None (ci_poll [pending_run])) = []
   \<and> \<not> allGreen (checkCIStatus None (ci_checks (ci_poll [pending_run])))
   \<and> blocking_of (allIssues_of None (ci_poll [passing_run])) = []
   \<and> allGreen (checkCIStatus None (ci_checks (ci_poll [passing_run])))
   \<and> \<not> notifiedReadyToMerge (polls_state None initial_state [blocked_poll, ci_poll [pending_run]])
   \<and> \<not> previouslyHadBlockingIssues
         (polls_state None initial_state [blocked_poll, ci_poll [pending_run]])
   \<and> map (\<lambda>evs. count_list evs ReadyToMergeNotification)
         (polls_events None initial_state
            [blocked_poll, ci_poll [pending_run], ci_poll [passing_run], ci_poll [passing_run]])
       = [0, 0, 0, 0]
   \<and> notifiedReadyToMerge
         (polls_state None initial_state [blocked_poll, ci_poll [pending_run], ci_poll [passing_run]])"
  by code_simp

text \<open>
  The rule as \<^const>\<open>pollForIssues\<close> has it. The ready notification is sent on a poll
  exactly when no blocking issue is active, the CI aggregate is all green,
  \<open>notifiedReadyToMerge\<close> is false and \<open>previouslyHadBlockingIssues\<close> is true, which
  every poll sets to whether it has a blocking issue itself; sending it leaves
  \<open>notifiedReadyToMerge\<close> true. Over three polls from the initial state, the first with a
  blocking issue, the second and third with none and CI all green, the notification is sent
  once, on the second poll.
\<close>

lemma ready_rule:
  "(ReadyToMergeNotification \<in> set (snd (pollForIssues env st inp)) \<longleftrightarrow>
      blocking_of (allIssues_of env inp) = [] \<and> allGreen (checkCIStatus env (ci_checks inp))
      \<and> \<not> notifiedReadyToMerge st \<and> previouslyHadBlockingIssues st)
   \<and> (ReadyToMergeNotification \<in> set (snd (pollForIssues env st inp)) \<longrightarrow>
        notifiedReadyToMerge (fst (pollForIssues env st inp)))
   \<and> previouslyHadBlockingIssues (fst (pollForIssues env st inp))
        = (blocking_of (allIssues_of env inp) \<noteq> [])
   \<and> (blocking_of (allIssues_of env i1) \<noteq> []
        \<and> blocking_of (allIssues_of env i2) = [] \<and> allGreen (checkCIStatus env (ci_checks i2))
        \<and> blocking_of (allIssues_of env i3) = [] \<and> allGreen (checkCIStatus env (ci_checks i3))
      \<longrightarrow> map (\<lambda>evs. count_list evs ReadyToMergeNotification)
            (polls_events env initial_state [i1, i2, i3]) = [0, 1, 0])"
proof (intro conjI impI)
  show "ReadyToMergeNotification \<in> set (snd (pollForIssues env st inp)) \<longleftrightarrow>
      blocking_of (allIssues_of env inp) = [] \<and> allGreen (checkCIStatus env (ci_checks inp))
      \<and> \<not> notifiedReadyToMerge st \<and> previouslyHadBlockingIssues st"
    by (rule ready_iff)
  show "previouslyHadBlockingIssues (fst (pollForIssues env st inp))
        = (blocking_of (allIssues_of env inp) \<noteq> [])"
    by (rule poll_previously)
next
  assume "ReadyToMergeNotification \<in> set (snd (pollForIssues env st inp))"
  then show "notifiedReadyToMerge (fst (pollForIssues env st inp))"
    by (simp add: ready_iff poll_notified blocking_new_subset)
next
  assume "blocking_of (allIssues_of env i1) \<noteq> []
        \<and> blocking_of (allIssues_of env i2) = [] \<and> allGreen (checkCIStatus env (ci_checks i2))
        \<and> blocking_of (allIssues_of env i3) = [] \<and> allGreen (checkCIStatus env (ci_checks i3))"
  then show "map (\<lambda>evs. count_list evs ReadyToMergeNotification)
            (polls_events env initial_state [i1, i2, i3]) = [0, 1, 0]"
    using ready_once by blast
qed

lemma ready_rule_example:
  "blocking_of (allIssues_of None blocked_poll) \<noteq> []
   \<and> blocking_of (allIssues_of None (ci_poll [passing_run])) = []
   \<and> allGreen (checkCIStatus None (ci_checks (ci_poll [passing_run])))
   \<and> map (\<lambda>evs. count_list evs ReadyToMergeNotification)
       (polls_events None initial_state [blocked_poll, ci_poll [passing_run], ci_poll [passing_run]])
       = [0, 1, 0]
   \<and> ReadyToMergeNotification \<in> set (snd (pollForIssues None
         (fst (pollForIssues None initial_state blocked_poll)) (ci_poll [passing_run])))
   \<and> notifiedReadyToMerge (fst (pollForIssues None
         (fst (pollForIssues None initial_state blocked_poll)) (ci_poll [passing_run])))"
proof -
  have b1: "blocking_of (allIssues_of None blocked_poll) \<noteq> []"
    by code_simp
  have b2: "blocking_of (allIssues_of None (ci_poll [passing_run])) = []"
    by code_simp
  have g2: "allGreen (checkCIStatus None (ci_checks (ci_poll [passing_run])))"
    by code_simp
  have r: "ReadyToMergeNotification \<in> set (snd (pollForIssues None
         (fst (pollForIssues None initial_state blocked_poll)) (ci_poll [passing_run])))"
    by code_simp
  from b1 b2 g2 r
    ready_rule [of None "fst (pollForIssues None initial_state blocked_poll)" "ci_poll [passing_run]"
      blocked_poll "ci_poll [passing_run]" "ci_poll [passing_run]"]
  show ?thesis by blast
qed

section \<open>The CI aggregate\<close>

lemma total_fold_run: "total (fold (count_run env) runs r) = total r + length runs"
  by (induction runs arbitrary: r) (auto simp: count_run_def Let_def)

lemma total_fold_status: "total (fold (count_status env) sts r) = total r + length sts"
  by (induction sts arbitrary: r) (auto simp: count_status_def Let_def)

lemma allGreen_fold_run: "allGreen (fold (count_run env) runs r) = allGreen r"
  by (induction runs arbitrary: r) (auto simp: count_run_def Let_def)

lemma sum_fold_run:
  "pending (fold (count_run env) runs r) + passed (fold (count_run env) runs r)
   + failed (fold (count_run env) runs r) + nonBlockingFailed (fold (count_run env) runs r)
   = pending r + passed r + failed r + nonBlockingFailed r + length runs"
  by (induction runs arbitrary: r) (auto simp: count_run_def Let_def)

lemma sum_fold_status:
  "pending (fold (count_status env) sts r) + passed (fold (count_status env) sts r)
   + failed (fold (count_status env) sts r) + nonBlockingFailed (fold (count_status env) sts r)
   = pending r + passed r + failed r + nonBlockingFailed r + length sts"
  by (induction sts arbitrary: r) (auto simp: count_status_def Let_def)

lemma allGreen_failed_fetch: "fetch_failed f \<Longrightarrow> \<not> allGreen (checkCIStatus env f)"
  by (cases f) (simp_all add: fetch_failed_def checkCIStatus_def allGreen_fold_run ci_status_init_def)

text \<open>
  When the check runs are fetched (one run, passed) and the commit-status call throws, the
  snapshot has one check, none pending, none failed, and is not all green.
\<close>

theorem allGreen_snapshot_counterexample:
  "\<not> (allGreen (checkCIStatus None (StatusesError [passing_run])) \<longleftrightarrow>
        total (checkCIStatus None (StatusesError [passing_run])) > 0
        \<and> pending (checkCIStatus None (StatusesError [passing_run])) = 0
        \<and> failed (checkCIStatus None (StatusesError [passing_run])) = 0)"
  by code_simp

text \<open>
  Claim C4, as amended. For every snapshot computed with all calls answering, \<open>allGreen\<close>
  holds iff \<open>total > 0\<close>, \<open>pending = 0\<close> and the count of blocking failures is \<open>0\<close>. For
  every snapshot, also one computed when a call threw, \<open>allGreen\<close> implies these three, so it
  is false whenever a blocking failure or a pending check was counted. The count of
  non-blocking failures does not enter the assignment of \<open>allGreen\<close>.
\<close>

theorem allGreen_snapshot:
  "(allGreen (checkCIStatus env (CiData runs sts)) \<longleftrightarrow>
      total (checkCIStatus env (CiData runs sts)) > 0
      \<and> pending (checkCIStatus env (CiData runs sts)) = 0
      \<and> failed (checkCIStatus env (CiData runs sts)) = 0)
   \<and> (allGreen (checkCIStatus env f) \<longrightarrow>
        total (checkCIStatus env f) > 0 \<and> pending (checkCIStatus env f) = 0
        \<and> failed (checkCIStatus env f) = 0)
   \<and> allGreen (set_allGreen (r\<lparr>nonBlockingFailed := k\<rparr>)) = allGreen (set_allGreen r)"
proof (intro conjI)
  show "allGreen (checkCIStatus env f) \<longrightarrow>
        total (checkCIStatus env f) > 0 \<and> pending (checkCIStatus env f) = 0
        \<and> failed (checkCIStatus env f) = 0"
  proof (cases "fetch_failed f")
    case True
    then show ?thesis using allGreen_failed_fetch by blast
  next
    case False
    then obtain runs' sts' where "f = CiData runs' sts'"
      by (cases f) (simp_all add: fetch_failed_def)
    then show ?thesis by (simp add: checkCIStatus_def set_allGreen_def)
  qed
qed (simp_all add: checkCIStatus_def set_allGreen_def)

theorem allGreen_snapshot_witness:
  "allGreen (checkCIStatus None (CiData [passing_run] []))
   \<and> total (checkCIStatus None (CiData [passing_run] [])) = 1
   \<and> pending (checkCIStatus None (CiData [passing_run] [])) = 0
   \<and> failed (checkCIStatus None (CiData [passing_run] [])) = 0"
proof -
  have g: "allGreen (checkCIStatus None (CiData [passing_run] []))"
    by code_simp
  have t: "total (checkCIStatus None (CiData [passing_run] [])) = 1"
    by code_simp
  from g t allGreen_snapshot [of None "[passing_run]" "[]" "CiData [passing_run] []"]
  show ?thesis by blast
qed

text \<open>
  Claim C10. With all calls answering, \<open>total\<close> is the number of check runs plus the
  number of commit statuses, and every one of them is counted in exactly one of the four
  tallies. A failing check run \<open>lint\<close> and a failing commit status \<open>lint\<close> with the same
  URL are one issue for \<^const>\<open>getCIFailures\<close> and two checks, both failed, in the aggregate.
\<close>

theorem aggregate_counts_every_report:
  "total (checkCIStatus env (CiData runs sts)) = length runs + length sts
   \<and> pending (checkCIStatus env (CiData runs sts)) + passed (checkCIStatus env (CiData runs sts))
     + failed (checkCIStatus env (CiData runs sts))
     + nonBlockingFailed (checkCIStatus env (CiData runs sts)) = length runs + length sts
   \<and> length (getCIFailures None (CiData [lint_run] [lint_status])) = 1
   \<and> total (checkCIStatus None (CiData [lint_run] [lint_status])) = 2
   \<and> failed (checkCIStatus None (CiData [lint_run] [lint_status])) = 2"
proof (intro conjI)
  show "total (checkCIStatus env (CiData runs sts)) = length runs + length sts"
    by (simp add: checkCIStatus_def set_allGreen_def total_fold_run total_fold_status ci_status_init_def)
  show "pending (checkCIStatus env (CiData runs sts)) + passed (checkCIStatus env (CiData runs sts))
     + failed (checkCIStatus env (CiData runs sts))
     + nonBlockingFailed (checkCIStatus env (CiData runs sts)) = length runs + length sts"
    using sum_fold_status [of env sts "fold (count_run env) runs ci_status_init"]
      sum_fold_run [of env runs ci_status_init]
    by (simp add: checkCIStatus_def set_allGreen_def ci_status_init_def)
  show "length (getCIFailures None (CiData [lint_run] [lint_status])) = 1"
    by code_simp
  show "total (checkCIStatus None (CiData [lint_run] [lint_status])) = 2"
    by code_simp
  show "failed (checkCIStatus None (CiData [lint_run] [lint_status])) = 2"
    by code_simp
qed

section \<open>Seen ids\<close>

lemma seen_mono: "seenIssueIds st \<subseteq> seenIssueIds (polls_state env st inps)"
proof (induction inps arbitrary: st)
  case Nil
  show ?case by simp
next
  case (Cons inp inps)
  have "seenIssueIds st \<subseteq> seenIssueIds (fst (pollForIssues env st inp))"
    by (simp add: poll_seen)
  also have "\<dots> \<subseteq> seenIssueIds (polls_state env (fst (pollForIssues env st inp)) inps)"
    by (rule Cons.IH)
  finally show ?case by simp
qed

text \<open>
  Claim C5. Over any number of polls the set of seen ids only grows; the id of every issue
  active in a poll is in the set after that poll; and after any number of further polls no
  new issue of a poll has an id that was in the set before them.
\<close>

theorem seen_set_grows:
  "seenIssueIds st \<subseteq> seenIssueIds (polls_state env st inps)
   \<and> issue_id ` set (allIssues_of env inp) \<subseteq> seenIssueIds (fst (pollForIssues env st inp))
   \<and> (\<forall>i \<in> set (newIssues_of (polls_state env st inps) (allIssues_of env later)).
        issue_id i \<notin> seenIssueIds st)"
proof (intro conjI ballI)
  show "seenIssueIds st \<subseteq> seenIssueIds (polls_state env st inps)"
    by (rule seen_mono)
  show "issue_id ` set (allIssues_of env inp) \<subseteq> seenIssueIds (fst (pollForIssues env st inp))"
    by (simp add: poll_seen)
next
  fix i
  assume "i \<in> set (newIssues_of (polls_state env st inps) (allIssues_of env later))"
  then have "issue_id i \<notin> seenIssueIds (polls_state env st inps)"
    by (simp add: newIssues_of_def)
  with seen_mono [of st env inps] show "issue_id i \<notin> seenIssueIds st"
    by blast
qed

theorem seen_set_grows_witness:
  "''review-11'' \<in> seenIssueIds (fst (pollForIssues None initial_state first_poll))
   \<and> ''review-11'' \<in> seenIssueIds (polls_state None (fst (pollForIssues None initial_state first_poll)) [quiet_poll])
   \<and> thread_issue open_thread second_comment \<in> set (newIssues_of
         (polls_state None (fst (pollForIssues None initial_state first_poll)) [quiet_poll])
         (allIssues_of None second_poll))
   \<and> issue_id (thread_issue open_thread second_comment)
       \<notin> seenIssueIds (fst (pollForIssues None initial_state first_poll))"
proof -
  let ?st = "fst (pollForIssues None initial_state first_poll)"
  have s: "''review-11'' \<in> seenIssueIds ?st"
    by code_simp
  have n: "thread_issue open_thread second_comment \<in> set (newIssues_of
         (polls_state None ?st [quiet_poll]) (allIssues_of None second_poll))"
    by code_simp
  from s n seen_set_grows [of ?st None "[quiet_poll]" first_poll second_poll]
  show ?thesis by blast
qed

section \<open>Resolved and outdated comments\<close>

lemma thread_issues_flags:
  "i \<in> set (thread_issues t) \<Longrightarrow> resolved i = Some (isResolved t) \<and> outdated i = Some (isOutdated t)"
  by (auto simp: thread_issues_def thread_issue_def Let_def)

lemma review_flags:
  "i \<in> set (getCursorbotComments gql rest) \<Longrightarrow> resolved i \<noteq> Some True \<and> outdated i \<noteq> Some True"
  by (cases gql)
    (auto simp: getCursorbotComments_def getCursorbotCommentsREST_def rest_issue_def Let_def
      dest: thread_issues_flags split: option.splits)

lemma comment_flags:
  "i \<in> set (getPRIssueComments fetched) \<Longrightarrow> resolved i = None \<and> outdated i = None"
  by (auto simp: getPRIssueComments_def comment_issue_def split: option.splits)

lemma push_statuses_flags:
  "\<forall>i \<in> set issues. resolved i = None \<and> outdated i = None \<Longrightarrow>
   \<forall>i \<in> set (push_statuses env sts issues). resolved i = None \<and> outdated i = None"
  by (induction env sts issues rule: push_statuses.induct) (auto simp: status_issue_def)

lemma ci_flags:
  "i \<in> set (getCIFailures env fetched) \<Longrightarrow> resolved i = None \<and> outdated i = None"
proof -
  have runs: "\<forall>i \<in> set (map (run_issue env) (filter run_failed rs)). resolved i = None \<and> outdated i = None" for rs
    by (auto simp: run_issue_def)
  assume "i \<in> set (getCIFailures env fetched)"
  then show ?thesis
    using runs push_statuses_flags [OF runs]
    by (cases fetched) (auto simp: getCIFailures_def)
qed

text \<open>
  Claim C6. No issue of a poll's active set has \<open>resolved\<close> or \<open>outdated\<close> true, on either
  path. The GraphQL path returns what it returns on the threads that are neither resolved nor
  outdated alone, and the REST path what it returns on the comments other than those with no
  position and an original position.
\<close>

theorem active_issues_unresolved:
  "(\<forall>i \<in> set (allIssues_of env inp). resolved i \<noteq> Some True \<and> outdated i \<noteq> Some True)
   \<and> getCursorbotComments (Some threads) rest =
       getCursorbotComments (Some (filter (\<lambda>t. \<not> isResolved t \<and> \<not> isOutdated t) threads)) rest
   \<and> getCursorbotCommentsREST (Some comments) =
       getCursorbotCommentsREST (Some (filter (\<lambda>c. \<not> rest_outdated c) comments))"
proof (intro conjI ballI)
  fix i
  assume "i \<in> set (allIssues_of env inp)"
  then consider "i \<in> set (getCursorbotComments (review_threads inp) (review_rest inp))"
    | "i \<in> set (getPRIssueComments (issue_comments inp))"
    | "i \<in> set (getCIFailures env (ci_failures inp))"
    by (auto simp: allIssues_of_def)
  then have "resolved i \<noteq> Some True \<and> outdated i \<noteq> Some True"
  proof cases
    case 1
    then show ?thesis by (rule review_flags)
  next
    case 2
    then show ?thesis using comment_flags by fastforce
  next
    case 3
    then show ?thesis using ci_flags by fastforce
  qed
  then show "resolved i \<noteq> Some True" and "outdated i \<noteq> Some True" by simp_all
next
  show "getCursorbotComments (Some threads) rest =
       getCursorbotComments (Some (filter (\<lambda>t. \<not> isResolved t \<and> \<not> isOutdated t) threads)) rest"
    by (simp add: getCursorbotComments_def)
  show "getCursorbotCommentsREST (Some comments) =
       getCursorbotCommentsREST (Some (filter (\<lambda>c. \<not> rest_outdated c) comments))"
    by (simp add: getCursorbotCommentsREST_def conj_commute)
qed

theorem active_issues_unresolved_witness:
  "thread_issue open_thread lint_comment
     \<in> set (allIssues_of None (quiet_poll\<lparr>review_threads := Some [resolved_thread, open_thread]\<rparr>))
   \<and> resolved (thread_issue open_thread lint_comment) \<noteq> Some True
   \<and> outdated (thread_issue open_thread lint_comment) \<noteq> Some True
   \<and> getCursorbotComments (Some [resolved_thread, open_thread]) None
       = [thread_issue open_thread lint_comment]"
proof -
  have m: "thread_issue open_thread lint_comment
     \<in> set (allIssues_of None (quiet_poll\<lparr>review_threads := Some [resolved_thread, open_thread]\<rparr>))"
    by code_simp
  have f: "getCursorbotComments (Some (filter (\<lambda>t. \<not> isResolved t \<and> \<not> isOutdated t)
             [resolved_thread, open_thread])) None = [thread_issue open_thread lint_comment]"
    by code_simp
  from m f active_issues_unresolved [of None
      "quiet_poll\<lparr>review_threads := Some [resolved_thread, open_thread]\<rparr>"
      "[resolved_thread, open_thread]" None "[]"]
  show ?thesis by auto
qed

section \<open>Duplicate commit statuses\<close>

text \<open>
  Claim C7. With no failing check run at all, the second of two failing commit statuses
  with different contexts is dropped as a duplicate of the first: when both have the same
  target URL, and also when neither has one. The test runs over every issue pushed so far,
  the ones pushed for commit statuses included.
\<close>

theorem status_dropped_without_check_run:
  "map issue_id (getCIFailures None (CiData [] [build_status, deploy_status])) = [''status-3'']
   \<and> map issue_id (getCIFailures None
         (CiData [] [build_status\<lparr>target_url := None\<rparr>, deploy_status\<lparr>target_url := None\<rparr>]))
       = [''status-3'']
   \<and> map issue_id (getCIFailures None (CiData [lint_run] [lint_status])) = [''ci-1'']"
  by code_simp

section \<open>Issue ids\<close>

lemma digit_char_inj: "a < 10 \<Longrightarrow> b < 10 \<Longrightarrow> digit_char a = digit_char b \<Longrightarrow> a = b"
  by (simp add: digit_char_def char_of_eq_iff take_bit_nat_eq_self)

lemma decimal_nonempty: "decimal n \<noteq> []"
  by (subst decimal.simps) simp

lemma decimal_inj: "decimal m = decimal n \<Longrightarrow> m = n"
proof (induction m arbitrary: n rule: decimal.induct)
  case (1 m)
  show ?case
  proof (cases "m < 10")
    case m: True
    show ?thesis
    proof (cases "n < 10")
      case True
      with m "1.prems" show ?thesis
        by (simp add: decimal.simps [of m] decimal.simps [of n] digit_char_inj)
    next
      case False
      with m "1.prems" decimal_nonempty [of "n div 10"] show ?thesis
        by (simp add: decimal.simps [of m] decimal.simps [of n] Cons_eq_append_conv)
    qed
  next
    case m: False
    show ?thesis
    proof (cases "n < 10")
      case True
      with m "1.prems" decimal_nonempty [of "m div 10"] show ?thesis
        by (simp add: decimal.simps [of m] decimal.simps [of n] append_eq_Cons_conv)
    next
      case False
      with m "1.prems" have "decimal (m div 10) = decimal (n div 10)"
        and d: "digit_char (m mod 10) = digit_char (n mod 10)"
        by (simp_all add: decimal.simps [of m] decimal.simps [of n])
      then have "m div 10 = n div 10" using "1.IH" m by blast
      moreover have "m mod 10 = n mod 10" using d by (simp add: digit_char_inj)
      ultimately show ?thesis by (metis div_mult_mod_eq)
    qed
  qed
qed

text \<open>
  Claim C8. The id of an issue is a fixed prefix for its category followed by the decimal
  platform id of the record, whatever the poll, the thread and the other fields: a review
  comment gets the same id on the GraphQL and on the REST path; within a category two ids
  are equal exactly when the platform ids are; and ids of different categories differ.
\<close>

theorem issue_ids_stable:
  "issue_id (thread_issue thread comment) = ''review-'' @ decimal (databaseId comment)
   \<and> issue_id (rest_issue rc) = ''review-'' @ decimal (rc_id rc)
   \<and> issue_id (comment_issue ic) = ''issue-'' @ decimal (ic_id ic)
   \<and> issue_id (run_issue env run) = ''ci-'' @ decimal (run_id run)
   \<and> issue_id (status_issue env status) = ''status-'' @ decimal (status_id status)
   \<and> (databaseId comment = rc_id rc \<longrightarrow> issue_id (thread_issue thread comment) = issue_id (rest_issue rc))
   \<and> (issue_id (thread_issue thread comment) = issue_id (thread_issue thread' comment')
        \<longleftrightarrow> databaseId comment = databaseId comment')
   \<and> (issue_id (comment_issue ic) = issue_id (comment_issue ic') \<longleftrightarrow> ic_id ic = ic_id ic')
   \<and> (issue_id (run_issue env run) = issue_id (run_issue env' run') \<longleftrightarrow> run_id run = run_id run')
   \<and> (issue_id (status_issue env status) = issue_id (status_issue env' status')
        \<longleftrightarrow> status_id status = status_id status')
   \<and> issue_id (thread_issue thread comment) \<noteq> issue_id (comment_issue ic)
   \<and> issue_id (thread_issue thread comment) \<noteq> issue_id (run_issue env run)
   \<and> issue_id (thread_issue thread comment) \<noteq> issue_id (status_issue env status)
   \<and> issue_id (rest_issue rc) \<noteq> issue_id (comment_issue ic)
   \<and> issue_id (rest_issue rc) \<noteq> issue_id (run_issue env run)
   \<and> issue_id (rest_issue rc) \<noteq> issue_id (status_issue env status)
   \<and> issue_id (comment_issue ic) \<noteq> issue_id (run_issue env run)
   \<and> issue_id (comment_issue ic) \<noteq> issue_id (status_issue env status)
   \<and> issue_id (run_issue env run) \<noteq> issue_id (status_issue env status)"
  using decimal_inj
  by (auto simp: thread_issue_def rest_issue_def comment_issue_def run_issue_def status_issue_def Let_def)

theorem issue_ids_stable_witness:
  "databaseId lint_comment = rc_id lint_rest_comment
   \<and> issue_id (thread_issue open_thread lint_comment) = ''review-11''
   \<and> issue_id (rest_issue lint_rest_comment) = ''review-11''"
proof -
  have h: "databaseId lint_comment = rc_id lint_rest_comment"
    by (simp add: lint_comment_def lint_rest_comment_def)
  have "issue_id (thread_issue open_thread lint_comment) = ''review-11''"
    by code_simp
  with h issue_ids_stable [of open_thread lint_comment lint_rest_comment]
  show ?thesis by simp
qed

section \<open>Failed fetches\<close>

text \<open>
  When the check runs are fetched and the commit-status call throws, the failing check run
  is still reported; when the GraphQL query throws and the REST call answers, the review
  comment is still reported.
\<close>

theorem failed_fetch_not_empty_counterexample:
  "map issue_id (getCIFailures None (StatusesError [lint_run])) = [''ci-1'']
   \<and> map issue_id (getCursorbotComments None (Some [lint_rest_comment])) = [''review-11'']"
  by code_simp

text \<open>
  Claim C9, as amended. When the call for the general comments throws, that category is
  empty and the poll goes on with the other two. When the GraphQL query for the
  review comments throws, the category is what the REST path returns, empty if that call
  throws too. When \<^verbatim>\<open>pulls.get\<close> or the check-run call of \<^const>\<open>getCIFailures\<close> throws, the
  CI category is empty; when its commit-status call throws, the category keeps the issues of
  the failing check runs. When any call of \<^const>\<open>checkCIStatus\<close> throws, \<open>allGreen\<close> is
  false and the poll sends no ready notification.
\<close>

theorem failed_fetch_degrades:
  "getPRIssueComments None = []
   \<and> getCursorbotComments None rest = getCursorbotCommentsREST rest
   \<and> getCursorbotCommentsREST None = []
   \<and> getCIFailures env PrError = [] \<and> getCIFailures env ChecksError = []
   \<and> getCIFailures env (StatusesError runs) = map (run_issue env) (filter run_failed runs)
   \<and> (issue_comments inp = None \<longrightarrow>
        allIssues_of env inp =
          getCursorbotComments (review_threads inp) (review_rest inp) @ getCIFailures env (ci_failures inp))
   \<and> (fetch_failed (ci_checks inp) \<longrightarrow>
        \<not> allGreen (checkCIStatus env (ci_checks inp))
        \<and> ReadyToMergeNotification \<notin> set (snd (pollForIssues env st inp)))"
  by (auto simp: getPRIssueComments_def getCursorbotComments_def getCursorbotCommentsREST_def
      getCIFailures_def allIssues_of_def ready_iff dest: allGreen_failed_fetch)

theorem failed_fetch_degrades_witness:
  "fetch_failed (ci_checks degraded_poll)
   \<and> issue_comments degraded_poll = None
   \<and> \<not> allGreen (checkCIStatus None (ci_checks degraded_poll))
   \<and> allIssues_of None degraded_poll = [thread_issue open_thread lint_comment]
   \<and> ReadyToMergeNotification \<notin> set (snd (pollForIssues None initial_state degraded_poll))"
proof -
  have f: "fetch_failed (ci_checks degraded_poll)"
    by (simp add: fetch_failed_def degraded_poll_def)
  have c: "issue_comments degraded_poll = None"
    by (simp add: degraded_poll_def)
  have a: "getCursorbotComments (review_threads degraded_poll) (review_rest degraded_poll)
             @ getCIFailures None (ci_failures degraded_poll)
             = [thread_issue open_thread lint_comment]"
    by code_simp
  from f c a failed_fetch_degrades [of None None "[]" degraded_poll initial_state]
  show ?thesis by simp
qed

end
